theory Spec2Isabelle
  imports Complex_Main "HOL-Library.Word"
begin

section \<open>Values shared by the playground providers\<close>

text \<open>
  A \<^verbatim>\<open>Buffer\<close> is a list of bytes. A \<^verbatim>\<open>BigNumber\<close> (bignumber.js) is an
  arbitrary-precision decimal: it is modelled by the rational number it denotes, so
  \<^verbatim>\<open>new BigNumber('0.00005000')\<close> is \<open>5 / 100000\<close>. A JavaScript \<^verbatim>\<open>number\<close> that is
  only ever handed to \<^verbatim>\<open>new BigNumber(...)\<close> is modelled by the decimal value the
  constructor reads from it.
\<close>

type_synonym Buffer = "8 word list"
type_synonym BigNumber = rat

datatype endian = little | big

text \<open>
  The opcodes of \<^verbatim>\<open>OP_CODES\<close> that the sources construct: \<^verbatim>\<open>OP_0\<close>, \<^verbatim>\<open>OP_RETURN\<close>,
  \<^verbatim>\<open>OP_PUSHDATA(buffer, endian)\<close> and the family \<^verbatim>\<open>OP_DEFI_TX_*\<close> (such as
  \<^verbatim>\<open>OP_DEFI_TX_VOTE(vote)\<close>), which carries an encoded instruction.
\<close>

datatype OPCode =
    OP_0
  | OP_RETURN
  | OP_PUSHDATA Buffer endian
  | OP_DEFI_TX Buffer

record Script =
  stack :: "OPCode list"

text \<open>\<^verbatim>\<open>Prevout\<close> of jellyfish-transaction-builder, as \<^verbatim>\<open>mapPrevout\<close> fills it.\<close>

record Prevout =
  txid :: string
  vout :: nat
  pvalue :: BigNumber
  script :: Script
  tokenId :: "nat option"

text \<open>
  An entry of the node's \<^verbatim>\<open>listunspent\<close> answer (typed \<^verbatim>\<open>any\<close> in the source): the
  fields \<^verbatim>\<open>mapPrevout\<close> reads. \<open>amount\<close> is in whole coins, as the node reports it.
\<close>

record UTXO =
  utxo_txid :: string
  utxo_vout :: nat
  amount :: BigNumber
  utxo_tokenId :: "nat option"

text \<open>The answer of \<^verbatim>\<open>estimatesmartfee\<close>: both \<^verbatim>\<open>feerate\<close> and \<^verbatim>\<open>errors\<close> may be undefined.\<close>

record SmartFeeEstimation =
  feerate :: "BigNumber option"
  errors :: "string list option"
  blocks :: nat

text \<open>A call to the node either resolves with an answer or rejects with an error.\<close>

datatype RpcError = RpcError string

record ApiClient =
  estimateSmartFee :: "nat \<Rightarrow> RpcError + SmartFeeEstimation"
  listUnspent :: "nat \<Rightarrow> nat \<Rightarrow> string list \<Rightarrow> RpcError + UTXO list"

text \<open>
  The functions imported from \<^verbatim>\<open>@defichain/jellyfish-crypto\<close>, whose code is not part of
  the sources: they are parameters of the model. \<^verbatim>\<open>Bech32.fromPubKey(pubKey, hrp, version)\<close>
  has the default \<^verbatim>\<open>version = 0x00\<close>.
\<close>

record JellyfishCrypto =
  HASH160 :: "Buffer \<Rightarrow> Buffer"
  Bech32_fromPubKey :: "Buffer \<Rightarrow> string \<Rightarrow> 8 word \<Rightarrow> string"

record EllipticPair =
  publicKey :: Buffer
  privateKey :: Buffer

section \<open>GenesisCoinbaseBot.ts: the three providers\<close>

subsection \<open>CoinbaseFeeRateProvider\<close>


subsection \<open>CoinbasePrevoutProvider\<close>

definition CoinbasePrevoutProvider_mapPrevout :: "JellyfishCrypto \<Rightarrow> UTXO \<Rightarrow> Buffer \<Rightarrow> Prevout" where
  "CoinbasePrevoutProvider_mapPrevout crypto utxo pubKey =
     \<lparr> txid = utxo_txid utxo,
       vout = utxo_vout utxo,
       pvalue = amount utxo,
       script = \<lparr> stack = [OP_0, OP_PUSHDATA (HASH160 crypto pubKey) little] \<rparr>,
       tokenId = utxo_tokenId utxo \<rparr>"

definition CoinbasePrevoutProvider_collect ::
  "JellyfishCrypto \<Rightarrow> ApiClient \<Rightarrow> EllipticPair \<Rightarrow> BigNumber \<Rightarrow> RpcError + Prevout list" where
  "CoinbasePrevoutProvider_collect crypto apiClient ellipticPair minBalance =
     (let pubKey = publicKey ellipticPair;
          address = Bech32_fromPubKey crypto pubKey ''bcrt'' 0
      in case listUnspent apiClient 1 9999999 [address] of
           Inl e \<Rightarrow> Inl e
         | Inr unspent \<Rightarrow>
             Inr (map (\<lambda>utxo. CoinbasePrevoutProvider_mapPrevout crypto utxo pubKey) unspent))"

definition CoinbasePrevoutProvider_all ::
  "JellyfishCrypto \<Rightarrow> ApiClient \<Rightarrow> EllipticPair \<Rightarrow> RpcError + Prevout list" where
  "CoinbasePrevoutProvider_all crypto apiClient ellipticPair =
     (let pubKey = publicKey ellipticPair
      in case listUnspent apiClient 1 9999999 [Bech32_fromPubKey crypto pubKey ''bcrt'' 0] of
           Inl e \<Rightarrow> Inl e
         | Inr unspent \<Rightarrow>
             Inr (map (\<lambda>utxo. CoinbasePrevoutProvider_mapPrevout crypto utxo pubKey) unspent))"

subsection \<open>CoinbaseEllipticPairProvider\<close>

definition CoinbaseEllipticPairProvider_script :: "JellyfishCrypto \<Rightarrow> EllipticPair \<Rightarrow> Script" where
  "CoinbaseEllipticPairProvider_script crypto ellipticPair =
     \<lparr> stack = [OP_0, OP_PUSHDATA (HASH160 crypto (publicKey ellipticPair)) little] \<rparr>"

definition CoinbaseEllipticPairProvider_get :: "EllipticPair \<Rightarrow> Prevout \<Rightarrow> EllipticPair" where
  "CoinbaseEllipticPairProvider_get ellipticPair prevout = ellipticPair"

section \<open>RootModule: the environment's validation schema\<close>

text \<open>
  \<^verbatim>\<open>ConfigModule.forRoot({ validationSchema: ENV_VALIDATION_SCHEMA() })\<close> validates the
  process environment (variable names to strings) against a Joi object schema and
  refuses to start on an error. The four shapes of key schema the module writes:
\<close>

type_synonym Env = "string \<rightharpoonup> string"

datatype JoiValue = JString string | JNumber rat | JBoolean bool

datatype JoiSchema =
    Joi_string_valid "string list" string
      \<comment> \<open>\<^verbatim>\<open>Joi.string().valid(v1, ..., vn).default(d)\<close>\<close>
  | Joi_string_regex "string \<Rightarrow> bool" string
      \<comment> \<open>\<^verbatim>\<open>Joi.string().regex(r).default(d)\<close>\<close>
  | Joi_number_default rat
      \<comment> \<open>\<^verbatim>\<open>Joi.number().default(n)\<close>\<close>
  | Joi_boolean
      \<comment> \<open>\<^verbatim>\<open>Joi.boolean()\<close>\<close>

datatype JoiError = any_only | string_empty | string_pattern | number_base | boolean_base

text \<open>
  Joi's reading of a string as a number and as a boolean belongs to the library, not to
  this repository: both are parameters.
\<close>

record JoiLib =
  number_of_string :: "string \<Rightarrow> rat option"
  boolean_of_string :: "string \<Rightarrow> bool option"

text \<open>
  One key: an undefined value takes the default (no key is \<^verbatim>\<open>required()\<close>); a value of a
  schema with \<^verbatim>\<open>valid(...)\<close> must be one of the listed values; a string must not be empty
  and must match the pattern.
\<close>

fun validate_key :: "JoiLib \<Rightarrow> JoiSchema \<Rightarrow> string option \<Rightarrow> JoiError + JoiValue option" where
  "validate_key lib (Joi_string_valid vs d) None = Inr (Some (JString d))"
| "validate_key lib (Joi_string_valid vs d) (Some v) =
     (if v \<in> set vs then Inr (Some (JString v)) else Inl any_only)"
| "validate_key lib (Joi_string_regex r d) None = Inr (Some (JString d))"
| "validate_key lib (Joi_string_regex r d) (Some v) =
     (if v = [] then Inl string_empty
      else if r v then Inr (Some (JString v)) else Inl string_pattern)"
| "validate_key lib (Joi_number_default n) None = Inr (Some (JNumber n))"
| "validate_key lib (Joi_number_default n) (Some v) =
     (case number_of_string lib v of
        None \<Rightarrow> Inl number_base
      | Some x \<Rightarrow> Inr (Some (JNumber x)))"
| "validate_key lib Joi_boolean None = Inr None"
| "validate_key lib Joi_boolean (Some v) =
     (case boolean_of_string lib v of
        None \<Rightarrow> Inl boolean_base
      | Some b \<Rightarrow> Inr (Some (JBoolean b)))"

text \<open>
  The object: every key of the schema is validated (\<^verbatim>\<open>abortEarly: false\<close>), variables the
  schema does not name are kept as they are (\<^verbatim>\<open>allowUnknown: true\<close>).
\<close>

fun validate_keys ::
  "JoiLib \<Rightarrow> (string \<times> JoiSchema) list \<Rightarrow> Env \<Rightarrow> (string \<times> JoiError) list \<times> (string \<rightharpoonup> JoiValue)" where
  "validate_keys lib [] env = ([], \<lambda>k. map_option JString (env k))"
| "validate_keys lib ((k, s) # rest) env =
     (case validate_keys lib rest env of
        (errs, cfg) \<Rightarrow>
          (case validate_key lib s (env k) of
             Inl e \<Rightarrow> ((k, e) # errs, cfg)
           | Inr v \<Rightarrow> (errs, cfg(k := v))))"

definition validate ::
  "JoiLib \<Rightarrow> (string \<times> JoiSchema) list \<Rightarrow> Env \<Rightarrow> (string \<times> JoiError) list + (string \<rightharpoonup> JoiValue)" where
  "validate lib schema env =
     (case validate_keys lib schema env of
        ([], cfg) \<Rightarrow> Inr cfg
      | (e # errs, cfg) \<Rightarrow> Inl (e # errs))"

text \<open>The pattern \<^verbatim>\<open>/^v[0-9]+(\.[0-9]+)?$/\<close> of \<^verbatim>\<open>API_VERSION\<close>.\<close>

definition is_digit :: "char \<Rightarrow> bool" where
  "is_digit c = (c \<in> set ''0123456789'')"

definition API_VERSION_regex :: "string \<Rightarrow> bool" where
  "API_VERSION_regex s =
     (case s of
        [] \<Rightarrow> False
      | c # rest \<Rightarrow>
          c = CHR ''v'' \<and>
          (let major = takeWhile is_digit rest; tail = dropWhile is_digit rest
           in major \<noteq> [] \<and>
              (case tail of
                 [] \<Rightarrow> True
               | d # minor \<Rightarrow> d = CHR ''.'' \<and> minor \<noteq> [] \<and> list_all is_digit minor)))"

definition ENV_VALIDATION_SCHEMA :: "(string \<times> JoiSchema) list" where
  "ENV_VALIDATION_SCHEMA =
     [ (''NODE_ENV'', Joi_string_valid [''production'', ''test''] ''test''),
       (''PORT'', Joi_number_default 3000),
       (''API_VERSION'', Joi_string_regex API_VERSION_regex ''v1''),
       (''API_NETWORK'', Joi_string_valid [''regtest'', ''testnet'', ''mainnet''] ''regtest''),
       (''PLAYGROUND_ENABLE'', Joi_boolean) ]"

section \<open>The core pipeline, as the specification describes it\<close>

text \<open>
  The packages that encode scripts and build transactions (jellyfish-transaction and
  jellyfish-transaction-builder) are used and tested by the sources, but their code is
  not among them. The definitions of this section are written from the specification.
\<close>

subsection \<open>Script assembler\<close>

text \<open>
  Modelled from the spec: a number in \<open>k\<close> little-endian bytes, for the fixed-width parts
  of the variable-length integer of section 4.1; the encoder is not in the sources.
\<close>

fun le_bytes :: "nat \<Rightarrow> nat \<Rightarrow> Buffer" where
  "le_bytes 0 n = []"
| "le_bytes (Suc k) n = of_nat (n mod 256) # le_bytes k (n div 256)"

text \<open>
  Modelled from the spec: the variable-length unsigned integer of section 4.1 (1, 3, 5
  and 9-byte forms by value range, the compact-size convention); the encoder is not in
  the sources.
\<close>

definition varint :: "nat \<Rightarrow> Buffer" where
  "varint n =
     (if n < 253 then [of_nat n]
      else if n \<le> 65535 then 253 # le_bytes 2 n
      else if n \<le> 4294967295 then 254 # le_bytes 4 n
      else 255 # le_bytes 8 n)"

text \<open>
  Modelled from the spec: the bytes of one opcode (\<^verbatim>\<open>asBuffer\<close> of jellyfish-transaction,
  not in the sources). The zero-version push is the byte \<open>0x00\<close>, the data marker
  \<^verbatim>\<open>OP_RETURN\<close> is \<open>0x6a\<close>, and a data push or an embedded instruction is its
  length-prefixed payload (sections 4.2 and 8). The specification is silent on the byte
  order argument: a buffer given as \<^verbatim>\<open>'little'\<close> is written as it is (the scenario of
  section 8), one given as \<^verbatim>\<open>'big'\<close>, which no source does, is taken to be reversed.
\<close>

fun asBuffer :: "OPCode \<Rightarrow> Buffer" where
  "asBuffer OP_0 = [0]"
| "asBuffer OP_RETURN = [106]"
| "asBuffer (OP_PUSHDATA b little) = varint (length b) @ b"
| "asBuffer (OP_PUSHDATA b big) = varint (length b) @ rev b"
| "asBuffer (OP_DEFI_TX payload) = varint (length payload) @ payload"

text \<open>
  Modelled from the spec: the concatenated opcode stream of a script, which the node
  shows as \<^verbatim>\<open>scriptPubKey.hex\<close> (section 4.2); the serializer is not in the sources.
\<close>

definition script_bytes :: "Script \<Rightarrow> Buffer" where
  "script_bytes s = concat (map asBuffer (stack s))"

text \<open>
  Modelled from the spec: \<^verbatim>\<open>lockingScriptFor(pubKeyHash)\<close> of section 4.2, the zero-version
  push and the hash push; the Script Assembler is not in the sources.
\<close>

definition lockingScriptFor :: "Buffer \<Rightarrow> Script" where
  "lockingScriptFor pubKeyHash = \<lparr> stack = [OP_0, OP_PUSHDATA pubKeyHash little] \<rparr>"

text \<open>
  Modelled from the spec: \<^verbatim>\<open>embed(instructionBytes)\<close> of section 4.2, the marker opcode
  followed by the length-prefixed payload; the Script Assembler is not in the sources.
\<close>

definition embed :: "Buffer \<Rightarrow> Script" where
  "embed instructionBytes = \<lparr> stack = [OP_RETURN, OP_DEFI_TX instructionBytes] \<rparr>"

subsection \<open>Data model of the builder\<close>

text \<open>
  Modelled from the spec: SpendableOutput of section 3, its value in integer minor
  units; the builder's own types are not in the sources.
\<close>

record SpendableOutput =
  source_id :: string
  output_index :: nat
  so_value :: nat
  locking_script :: Script
  token_id :: "nat option"

text \<open>
  Modelled from the spec: TxInput of section 3, the reference and the sequence number;
  the witness of an input is held by the transaction, at the input's index.
\<close>

record TxInput =
  ref_id :: string
  ref_index :: nat
  sequence_number :: nat

text \<open>Modelled from the spec: TxOutput of section 3, a value in minor units and a script.\<close>

record TxOutput =
  out_value :: nat
  out_script :: Script

text \<open>
  Modelled from the spec: Transaction of section 3. A witness is a stack of byte strings;
  an unsigned transaction carries no witness.
\<close>

record Transaction =
  version :: nat
  inputs :: "TxInput list"
  outputs :: "TxOutput list"
  witnesses :: "Buffer list list"
  locktime :: nat

text \<open>Modelled from the spec: KeyPair of section 3.\<close>

record KeyPair =
  private_scalar :: Buffer
  public_point :: Buffer

text \<open>Modelled from the spec: the failure modes of a build (sections 4.6 and 7).\<close>

datatype BuildError = InsufficientFunds | UnsupportedInstruction | SigningFailure

text \<open>
  Modelled from the spec: the three capability interfaces of section 4.5. The fee
  provider's \<open>None\<close> is its error or "no estimate" answer; the resolver's \<open>None\<close> is a
  key it cannot resolve. Their implementations are outside the core.
\<close>

record Providers =
  PrevoutProvider_collect :: "nat \<Rightarrow> SpendableOutput list"
  FeeRateProvider_estimate :: "nat option"
  SigningKeyResolver_keyFor :: "SpendableOutput \<Rightarrow> KeyPair option"

text \<open>
  Modelled from the spec: what the builder takes from the leaf components (sections 4.1,
  4.3 and 4.4), none of them in the sources: \<^verbatim>\<open>encode\<close> of the instruction codec (\<open>None\<close>
  for an unregistered kind), \<^verbatim>\<open>signatureHash\<close> and \<^verbatim>\<open>sign\<close> (\<open>None\<close> when no signature
  can be made).
\<close>

record 'i Components =
  encode :: "'i \<Rightarrow> Buffer option"
  signatureHash :: "Transaction \<Rightarrow> nat \<Rightarrow> Script \<Rightarrow> nat \<Rightarrow> Buffer"
  sign :: "Buffer \<Rightarrow> KeyPair \<Rightarrow> Buffer option"

text \<open>
  Modelled from the spec: the policy constants the specification leaves to injected
  configuration (sections 3, 4.6 and 9): the fallback fee rate, the fee as a function of
  the rate and of the input and output counts, the dust threshold and the iteration cap.
\<close>

record Policy =
  fallback_rate :: nat
  fee_for :: "nat \<Rightarrow> nat \<Rightarrow> nat \<Rightarrow> nat"
  dust_threshold :: nat
  iteration_cap :: nat
  tx_version :: nat
  tx_locktime :: nat
  tx_sequence :: nat

text \<open>
  Modelled from the spec: a build request, the instruction (none for a plain transfer),
  the transfer outputs the operation declares and the owner's script for the change.
\<close>

record 'i BuildRequest =
  instruction :: "'i option"
  transfers :: "TxOutput list"
  owner_script :: Script

subsection \<open>Transaction builder\<close>

text \<open>
  Modelled from the spec: the fee rate the builder works with (sections 4.5 and 4.6); on
  the provider's error or "no estimate" answer it is the fixed fallback rate.
\<close>

definition fee_rate :: "Policy \<Rightarrow> Providers \<Rightarrow> nat" where
  "fee_rate policy providers =
     (case FeeRateProvider_estimate providers of
        None \<Rightarrow> fallback_rate policy
      | Some rate \<Rightarrow> rate)"

text \<open>
  Modelled from the spec: step 1 of section 4.6, the embedded-data output of zero value
  for an operation that is not a plain transfer; an instruction the codec does not know
  fails the build.
\<close>

definition embedded_outputs :: "'i Components \<Rightarrow> 'i option \<Rightarrow> BuildError + TxOutput list" where
  "embedded_outputs components instr =
     (case instr of
        None \<Rightarrow> Inr []
      | Some i \<Rightarrow>
          (case encode components i of
             None \<Rightarrow> Inl UnsupportedInstruction
           | Some instructionBytes \<Rightarrow>
               Inr [\<lparr> out_value = 0, out_script = embed instructionBytes \<rparr>]))"

text \<open>Modelled from the spec: the sum of the input values, in minor units (section 3).\<close>

definition total_in :: "SpendableOutput list \<Rightarrow> nat" where
  "total_in ps = sum_list (map so_value ps)"

text \<open>Modelled from the spec: the sum of the output values, in minor units (section 3).\<close>

definition total_out :: "TxOutput list \<Rightarrow> nat" where
  "total_out os = sum_list (map out_value os)"

text \<open>
  Modelled from the spec: step 3 of section 4.6. Candidates are taken one at a time until
  the accumulated value reaches the required funding plus the fee for the current input
  and output counts; a candidate list that runs out, or a cap that reaches zero, fails
  with \<open>InsufficientFunds\<close>. \<open>fee n\<close> is the fee with \<open>n\<close> inputs, \<open>required\<close> the required
  funding of step 2, \<open>selected\<close> the inputs accumulated so far.
\<close>

fun select_inputs ::
  "(nat \<Rightarrow> nat) \<Rightarrow> nat \<Rightarrow> nat \<Rightarrow> SpendableOutput list \<Rightarrow> SpendableOutput list
     \<Rightarrow> BuildError + SpendableOutput list" where
  "select_inputs fee required 0 candidates selected = Inl InsufficientFunds"
| "select_inputs fee required (Suc cap) [] selected = Inl InsufficientFunds"
| "select_inputs fee required (Suc cap) (p # candidates) selected =
     (let selected' = selected @ [p]
      in if total_in selected' \<ge> required + fee (length selected')
         then Inr selected'
         else select_inputs fee required cap candidates selected')"

text \<open>
  Modelled from the spec: step 4 of section 4.6, the embedded output first, the transfer
  outputs next, then the change to the owner's script unless it is below the dust
  threshold.
\<close>

definition assemble_outputs ::
  "Policy \<Rightarrow> TxOutput list \<Rightarrow> TxOutput list \<Rightarrow> Script \<Rightarrow> nat \<Rightarrow> TxOutput list" where
  "assemble_outputs policy embedded transfer owner change =
     embedded @ transfer @
     (if change < dust_threshold policy then []
      else [\<lparr> out_value = change, out_script = owner \<rparr>])"

text \<open>
  Modelled from the spec: step 5 of section 4.6, the unsigned transaction; it carries no
  witness.
\<close>

definition assemble_unsigned :: "Policy \<Rightarrow> SpendableOutput list \<Rightarrow> TxOutput list \<Rightarrow> Transaction" where
  "assemble_unsigned policy selected outs =
     \<lparr> version = tx_version policy,
       inputs = map (\<lambda>p. \<lparr> ref_id = source_id p, ref_index = output_index p,
                            sequence_number = tx_sequence policy \<rparr>) selected,
       outputs = outs,
       witnesses = [],
       locktime = tx_locktime policy \<rparr>"

text \<open>
  Modelled from the spec: step 6 of section 4.6 for the inputs from index \<open>i\<close> on. Each
  input's key is resolved, its signature hash computed and signed, and the witness
  (signature and public key) put at the input's index. The first component counts the
  calls of \<^verbatim>\<open>sign\<close> made; a key that does not resolve, or a signature that cannot be
  made, fails with \<open>SigningFailure\<close>.
\<close>

fun sign_inputs ::
  "'i Components \<Rightarrow> Providers \<Rightarrow> Transaction \<Rightarrow> nat \<Rightarrow> SpendableOutput list
     \<Rightarrow> nat \<times> (BuildError + Buffer list list)" where
  "sign_inputs components providers tx i [] = (0, Inr [])"
| "sign_inputs components providers tx i (p # ps) =
     (case SigningKeyResolver_keyFor providers p of
        None \<Rightarrow> (0, Inl SigningFailure)
      | Some key \<Rightarrow>
          (case sign components (signatureHash components tx i (locking_script p) (so_value p)) key of
             None \<Rightarrow> (1, Inl SigningFailure)
           | Some signature \<Rightarrow>
               (case sign_inputs components providers tx (Suc i) ps of
                  (n, Inl e) \<Rightarrow> (Suc n, Inl e)
                | (n, Inr ws) \<Rightarrow> (Suc n, Inr ([signature, public_point key] # ws)))))"

text \<open>
  Modelled from the spec: the fee of a transaction with \<open>n_in\<close> inputs and \<open>n_out\<close>
  outputs at the builder's fee rate (section 4.6).
\<close>

definition estimated_fee :: "Policy \<Rightarrow> Providers \<Rightarrow> nat \<Rightarrow> nat \<Rightarrow> nat" where
  "estimated_fee policy providers n_out n_in =
     fee_for policy (fee_rate policy providers) n_in n_out"

text \<open>
  Modelled from the spec: the required funding of step 2 of section 4.6, the transfer
  amount plus the fee estimated for a single input.
\<close>

definition required_funding :: "Policy \<Rightarrow> Providers \<Rightarrow> 'i BuildRequest \<Rightarrow> nat \<Rightarrow> nat" where
  "required_funding policy providers request n_out =
     total_out (transfers request) + estimated_fee policy providers n_out 1"

text \<open>
  Modelled from the spec: the state machine of section 4.6, steps 1 to 6. The result is
  the number of \<^verbatim>\<open>sign\<close> calls made, and either the failure or the signed transaction.
\<close>

definition build ::
  "Policy \<Rightarrow> 'i Components \<Rightarrow> Providers \<Rightarrow> 'i BuildRequest \<Rightarrow> nat \<times> (BuildError + Transaction)" where
  "build policy components providers request =
     (case embedded_outputs components (instruction request) of
        Inl e \<Rightarrow> (0, Inl e)
      | Inr embedded \<Rightarrow>
          (let n_out = length embedded + length (transfers request) + 1;
               required = required_funding policy providers request n_out
           in case select_inputs (estimated_fee policy providers n_out) required
                     (iteration_cap policy) (PrevoutProvider_collect providers required) [] of
                Inl e \<Rightarrow> (0, Inl e)
              | Inr selected \<Rightarrow>
                  (let change = total_in selected - total_out (transfers request)
                                  - estimated_fee policy providers n_out (length selected);
                       outs = assemble_outputs policy embedded (transfers request)
                                (owner_script request) change;
                       tx = assemble_unsigned policy selected outs
                   in case sign_inputs components providers tx 0 selected of
                        (n, Inl e) \<Rightarrow> (n, Inl e)
                      | (n, Inr ws) \<Rightarrow> (n, Inr (tx\<lparr> witnesses := ws \<rparr>)))))"

section \<open>Sample inputs\<close>

text \<open>Concrete nodes, keys and environments, at which the theorems below are evaluated.\<close>

definition sample_crypto :: JellyfishCrypto where
  "sample_crypto =
     \<lparr> HASH160 = (\<lambda>pubKey. take 20 (pubKey @ replicate 20 0)),
       Bech32_fromPubKey = (\<lambda>pubKey hrp version. hrp @ ''1q'' @ map (\<lambda>b. char_of (unat b)) pubKey) \<rparr>"

definition sample_pair :: EllipticPair where
  "sample_pair = \<lparr> publicKey = [2, 17, 34, 51], privateKey = [7] \<rparr>"



definition half_coin :: UTXO where
  "half_coin = \<lparr> utxo_txid = ''ab'', utxo_vout = 0, amount = 1 / 2, utxo_tokenId = None \<rparr>"

definition sample_lib :: JoiLib where
  "sample_lib =
     \<lparr> number_of_string = (\<lambda>s. if s = ''3000'' then Some 3000 else None),
       boolean_of_string =
         (\<lambda>s. if s = ''true'' then Some True else if s = ''false'' then Some False else None) \<rparr>"

text \<open>
  A builder set-up after the scenario of section 8: a flat fee of 0.00050000, one
  spendable output of 10.00000000, and a codec that knows every instruction but the
  empty one.
\<close>

definition sample_policy :: Policy where
  "sample_policy =
     \<lparr> fallback_rate = 5000, fee_for = (\<lambda>rate n_in n_out. 50000), dust_threshold = 1000,
       iteration_cap = 8, tx_version = 4, tx_locktime = 0, tx_sequence = 4294967295 \<rparr>"

definition sample_components :: "Buffer Components" where
  "sample_components =
     \<lparr> encode = (\<lambda>i. if i = [] then None else Some i),
       signatureHash = (\<lambda>tx i scriptCode v. of_nat i # script_bytes scriptCode),
       sign = (\<lambda>h key. Some (h @ private_scalar key)) \<rparr>"

definition ten_coins :: SpendableOutput where
  "ten_coins =
     \<lparr> source_id = ''ab'', output_index = 0, so_value = 1000000000,
       locking_script = lockingScriptFor (replicate 20 7), token_id = None \<rparr>"

definition funded_providers :: Providers where
  "funded_providers =
     \<lparr> PrevoutProvider_collect = (\<lambda>minimumValue. [ten_coins]),
       FeeRateProvider_estimate = None,
       SigningKeyResolver_keyFor = (\<lambda>p. Some \<lparr> private_scalar = [1], public_point = [2] \<rparr>) \<rparr>"

definition empty_providers :: Providers where
  "empty_providers = funded_providers \<lparr> PrevoutProvider_collect := (\<lambda>minimumValue. []) \<rparr>"

definition vote_request :: "Buffer BuildRequest" where
  "vote_request =
     \<lparr> instruction = Some [68, 102, 84, 120, 79, 1],
       transfers = [],
       owner_script = lockingScriptFor (replicate 20 7) \<rparr>"

text \<open>
  Providers with no spendable output, and with one output of 0.00060000, too small to
  cover the funding and the fee; and the transaction the funded set-up builds.
\<close>

definition small_coin :: SpendableOutput where
  "small_coin =
     \<lparr> source_id = ''cd'', output_index = 1, so_value = 60000,
       locking_script = lockingScriptFor (replicate 20 7), token_id = None \<rparr>"

definition poor_providers :: Providers where
  "poor_providers = funded_providers \<lparr> PrevoutProvider_collect := (\<lambda>minimumValue. [small_coin]) \<rparr>"

definition signed_vote_tx :: Transaction where
  "signed_vote_tx =
     \<lparr> version = 4,
       inputs = [\<lparr> ref_id = ''ab'', ref_index = 0, sequence_number = 4294967295 \<rparr>],
       outputs = [\<lparr> out_value = 0, out_script = embed [68, 102, 84, 120, 79, 1] \<rparr>,
                  \<lparr> out_value = 999950000, out_script = lockingScriptFor (replicate 20 7) \<rparr>],
       witnesses = [[[0, 0, 20] @ replicate 20 7 @ [1], [2]]],
       locktime = 0 \<rparr>"

text \<open>
  A value that is a whole number: what a prevout's value would be, were it a count of
  minor units.
\<close>

definition is_integer_count :: "BigNumber \<Rightarrow> bool" where
  "is_integer_count v = (of_int \<lfloor>v\<rfloor> = v)"

section \<open>Theorems\<close>

text \<open>
  C10. Whatever minimum balance is asked for, \<^verbatim>\<open>collect(minBalance)\<close> answers exactly as
  \<^verbatim>\<open>all()\<close> does on the same node and key pair: the same list of prevouts when the node
  answers, the same error when the call is rejected. The argument is never read.
\<close>

theorem collect_ignores_minBalance:
  "CoinbasePrevoutProvider_collect crypto apiClient ellipticPair minBalance =
   CoinbasePrevoutProvider_all crypto apiClient ellipticPair"
  by (simp add: CoinbasePrevoutProvider_collect_def CoinbasePrevoutProvider_all_def)




text \<open>
  C7. For a key pair whose public-key hash \<open>H\<close> has 20 bytes, the script that
  \<^verbatim>\<open>CoinbaseEllipticPairProvider.script()\<close> returns, which is also the script
  \<^verbatim>\<open>mapPrevout\<close> gives every prevout, is \<^verbatim>\<open>OP_0\<close> followed by the push of \<open>H\<close>: the
  canonical locking script of the specification. Its bytes are \<open>[0x00, 0x14] @ H\<close>, 22
  bytes in all.
\<close>

theorem locking_script_bytes:
  assumes "HASH160 crypto (publicKey ellipticPair) = H" and "length H = 20"
  shows "stack (CoinbaseEllipticPairProvider_script crypto ellipticPair) = [OP_0, OP_PUSHDATA H little]
       \<and> script (CoinbasePrevoutProvider_mapPrevout crypto utxo (publicKey ellipticPair)) =
           CoinbaseEllipticPairProvider_script crypto ellipticPair
       \<and> CoinbaseEllipticPairProvider_script crypto ellipticPair = lockingScriptFor H
       \<and> script_bytes (CoinbaseEllipticPairProvider_script crypto ellipticPair) = [0, 20] @ H
       \<and> length (script_bytes (CoinbaseEllipticPairProvider_script crypto ellipticPair)) = 22"
  using assms
  by (simp add: CoinbaseEllipticPairProvider_script_def CoinbasePrevoutProvider_mapPrevout_def
      lockingScriptFor_def script_bytes_def varint_def)

text \<open>The theorem at the sample key pair, whose hash is 20 bytes long.\<close>

theorem locking_script_bytes_witness:
  "HASH160 sample_crypto (publicKey sample_pair) = [2, 17, 34, 51] @ replicate 16 0
   \<and> length ([2, 17, 34, 51] @ replicate 16 (0 :: 8 word)) = 20
   \<and> script_bytes (CoinbaseEllipticPairProvider_script sample_crypto sample_pair) =
       [0, 20, 2, 17, 34, 51] @ replicate 16 0"
proof -
  have h: "HASH160 sample_crypto (publicKey sample_pair) = [2, 17, 34, 51] @ replicate 16 0"
    by (simp add: sample_crypto_def sample_pair_def)
  have l: "length ([2, 17, 34, 51] @ replicate 16 (0 :: 8 word)) = 20"
    by simp
  have "script_bytes (CoinbaseEllipticPairProvider_script sample_crypto sample_pair) =
          [0, 20] @ ([2, 17, 34, 51] @ replicate 16 0)"
    using locking_script_bytes [OF h l] by blast
  with h l show ?thesis
    by simp
qed

text \<open>
  C8, as stated, does not hold: the value of a prevout is not an integer count of minor
  units. An unspent output of half a coin gets the value \<open>1/2\<close>, not \<open>50000000\<close>.
\<close>

theorem prevout_value_counterexample:
  "\<not> is_integer_count (pvalue (CoinbasePrevoutProvider_mapPrevout sample_crypto half_coin (publicKey sample_pair)))
   \<and> pvalue (CoinbasePrevoutProvider_mapPrevout sample_crypto half_coin (publicKey sample_pair)) * 10 ^ 8 = 50000000"
  by code_simp

text \<open>
  C8, amended. The value of a prevout is the amount the node reports, in whole coins,
  held as an exact decimal and not converted; for an amount of \<open>n\<close> minor units, the
  value times \<open>10\<^sup>8\<close> is exactly \<open>n\<close>.
\<close>

theorem prevout_value_is_amount:
  "pvalue (CoinbasePrevoutProvider_mapPrevout crypto utxo pubKey) = amount utxo
   \<and> pvalue (CoinbasePrevoutProvider_mapPrevout crypto (utxo\<lparr> amount := of_int n / 10 ^ 8 \<rparr>) pubKey) * 10 ^ 8 = of_int n"
  by (simp add: CoinbasePrevoutProvider_mapPrevout_def)

text \<open>
  Validation of an environment: a key of the schema is validated on its own, an error
  on it fails the whole validation, and the validated value is what the configuration
  holds under that key.
\<close>

lemma validate_keys_key:
  assumes "validate_keys lib schema env = (errs, cfg)"
      and "(k, s) \<in> set schema" and "distinct (map fst schema)"
  shows "case validate_key lib s (env k) of Inl e \<Rightarrow> (k, e) \<in> set errs | Inr v \<Rightarrow> cfg k = v"
  using assms
proof (induction schema arbitrary: errs cfg)
  case Nil
  then show ?case by simp
next
  case (Cons a schema)
  then show ?case
    by (cases a) (auto split: prod.splits sum.splits simp: rev_image_eqI)
qed

lemma validate_Inr_key:
  assumes "validate lib schema env = Inr cfg"
      and "(k, s) \<in> set schema" and "distinct (map fst schema)"
  shows "validate_key lib s (env k) = Inr (cfg k)"
proof -
  from assms(1) have "validate_keys lib schema env = ([], cfg)"
    by (auto simp: validate_def split: prod.splits list.splits)
  from validate_keys_key [OF this assms(2,3)] show ?thesis
    by (cases "validate_key lib s (env k)") simp_all
qed

lemma validate_Inl_key:
  assumes "validate_key lib s (env k) = Inl e"
      and "(k, s) \<in> set schema" and "distinct (map fst schema)"
  shows "\<exists>errs. validate lib schema env = Inl errs \<and> (k, e) \<in> set errs"
proof -
  obtain errs cfg where vk: "validate_keys lib schema env = (errs, cfg)"
    by (cases "validate_keys lib schema env")
  from validate_keys_key [OF vk assms(2,3)] assms(1) have "(k, e) \<in> set errs"
    by simp
  with vk show ?thesis
    by (cases errs) (auto simp: validate_def)
qed

lemma API_NETWORK_in_schema:
  "(''API_NETWORK'', Joi_string_valid [''regtest'', ''testnet'', ''mainnet''] ''regtest'')
     \<in> set ENV_VALIDATION_SCHEMA"
  "distinct (map fst ENV_VALIDATION_SCHEMA)"
  by (simp_all add: ENV_VALIDATION_SCHEMA_def)

text \<open>
  C9. The network is configuration, read from \<^verbatim>\<open>API_NETWORK\<close>, and exactly three values
  are supported: an environment whose \<^verbatim>\<open>API_NETWORK\<close> is anything else is rejected by
  the validation; a validated configuration holds the environment's value, one of
  \<^verbatim>\<open>regtest\<close>, \<^verbatim>\<open>testnet\<close> and \<^verbatim>\<open>mainnet\<close>, or \<^verbatim>\<open>regtest\<close> when the variable is not set; each
  of the three is accepted; and the empty environment validates to \<^verbatim>\<open>regtest\<close>.
\<close>

theorem API_NETWORK_three_networks:
  "(\<forall>v. env ''API_NETWORK'' = Some v \<and> v \<notin> {''regtest'', ''testnet'', ''mainnet''} \<longrightarrow>
        (\<exists>errs. validate lib ENV_VALIDATION_SCHEMA env = Inl errs
                \<and> (''API_NETWORK'', any_only) \<in> set errs))
   \<and> (\<forall>cfg. validate lib ENV_VALIDATION_SCHEMA env = Inr cfg \<longrightarrow>
        (case env ''API_NETWORK'' of
           None \<Rightarrow> cfg ''API_NETWORK'' = Some (JString ''regtest'')
         | Some v \<Rightarrow> v \<in> {''regtest'', ''testnet'', ''mainnet''}
                     \<and> cfg ''API_NETWORK'' = Some (JString v)))
   \<and> (\<forall>v \<in> {''regtest'', ''testnet'', ''mainnet''}.
        \<exists>cfg. validate lib ENV_VALIDATION_SCHEMA [''API_NETWORK'' \<mapsto> v] = Inr cfg
              \<and> cfg ''API_NETWORK'' = Some (JString v))
   \<and> (\<exists>cfg. validate lib ENV_VALIDATION_SCHEMA Map.empty = Inr cfg
              \<and> cfg ''API_NETWORK'' = Some (JString ''regtest''))"
proof (intro conjI allI impI ballI)
  fix v
  assume "env ''API_NETWORK'' = Some v \<and> v \<notin> {''regtest'', ''testnet'', ''mainnet''}"
  then have "validate_key lib (Joi_string_valid [''regtest'', ''testnet'', ''mainnet''] ''regtest'')
               (env ''API_NETWORK'') = Inl any_only"
    by simp
  from validate_Inl_key [of lib _ env "''API_NETWORK''", OF this API_NETWORK_in_schema]
  show "\<exists>errs. validate lib ENV_VALIDATION_SCHEMA env = Inl errs
                \<and> (''API_NETWORK'', any_only) \<in> set errs" .
next
  fix cfg
  assume "validate lib ENV_VALIDATION_SCHEMA env = Inr cfg"
  from validate_Inr_key [of lib _ env cfg "''API_NETWORK''", OF this API_NETWORK_in_schema]
  show "case env ''API_NETWORK'' of
           None \<Rightarrow> cfg ''API_NETWORK'' = Some (JString ''regtest'')
         | Some v \<Rightarrow> v \<in> {''regtest'', ''testnet'', ''mainnet''}
                     \<and> cfg ''API_NETWORK'' = Some (JString v)"
    by (cases "env ''API_NETWORK''") (auto split: if_splits)
next
  fix v :: string
  assume "v \<in> {''regtest'', ''testnet'', ''mainnet''}"
  then show "\<exists>cfg. validate lib ENV_VALIDATION_SCHEMA [''API_NETWORK'' \<mapsto> v] = Inr cfg
              \<and> cfg ''API_NETWORK'' = Some (JString v)"
    by (auto simp: validate_def ENV_VALIDATION_SCHEMA_def)
next
  show "\<exists>cfg. validate lib ENV_VALIDATION_SCHEMA Map.empty = Inr cfg
              \<and> cfg ''API_NETWORK'' = Some (JString ''regtest'')"
    by (simp add: validate_def ENV_VALIDATION_SCHEMA_def)
qed

text \<open>The theorem at \<^verbatim>\<open>API_NETWORK=devnet\<close>, which is rejected, and at \<^verbatim>\<open>API_NETWORK=mainnet\<close>.\<close>

theorem API_NETWORK_three_networks_witness:
  "[''API_NETWORK'' \<mapsto> ''devnet''] ''API_NETWORK'' = Some ''devnet''
   \<and> ''devnet'' \<notin> {''regtest'', ''testnet'', ''mainnet''}
   \<and> (\<exists>errs. validate sample_lib ENV_VALIDATION_SCHEMA [''API_NETWORK'' \<mapsto> ''devnet''] = Inl errs
             \<and> (''API_NETWORK'', any_only) \<in> set errs)
   \<and> ''mainnet'' \<in> {''regtest'', ''testnet'', ''mainnet''}
   \<and> (\<exists>cfg. validate sample_lib ENV_VALIDATION_SCHEMA [''API_NETWORK'' \<mapsto> ''mainnet''] = Inr cfg
            \<and> cfg ''API_NETWORK'' = Some (JString ''mainnet''))"
proof -
  have a: "[''API_NETWORK'' \<mapsto> ''devnet''] ''API_NETWORK'' = Some ''devnet''
           \<and> ''devnet'' \<notin> {''regtest'', ''testnet'', ''mainnet''}"
    by simp
  have b: "''mainnet'' \<in> {''regtest'', ''testnet'', ''mainnet''}"
    by simp
  note t1 = API_NETWORK_three_networks [of "[''API_NETWORK'' \<mapsto> ''devnet'']" sample_lib]
  note t2 = API_NETWORK_three_networks [of Map.empty sample_lib]
  have c: "\<exists>errs. validate sample_lib ENV_VALIDATION_SCHEMA [''API_NETWORK'' \<mapsto> ''devnet''] = Inl errs
             \<and> (''API_NETWORK'', any_only) \<in> set errs"
    by (rule t1 [THEN conjunct1, rule_format, OF a])
  have d: "\<exists>cfg. validate sample_lib ENV_VALIDATION_SCHEMA [''API_NETWORK'' \<mapsto> ''mainnet''] = Inr cfg
            \<and> cfg ''API_NETWORK'' = Some (JString ''mainnet'')"
    by (rule t2 [THEN conjunct2, THEN conjunct2, THEN conjunct1, THEN bspec, OF b])
  from d obtain cfg where
    e: "validate sample_lib ENV_VALIDATION_SCHEMA [''API_NETWORK'' \<mapsto> ''mainnet''] = Inr cfg"
    by (elim exE conjE)
  note t3 = API_NETWORK_three_networks [of "[''API_NETWORK'' \<mapsto> ''mainnet'']" sample_lib]
  from t3 [THEN conjunct2, THEN conjunct1, rule_format, OF e]
  have "cfg ''API_NETWORK'' = Some (JString ''mainnet'')"
    by simp
  with e have f: "\<exists>cfg. validate sample_lib ENV_VALIDATION_SCHEMA [''API_NETWORK'' \<mapsto> ''mainnet''] = Inr cfg
            \<and> cfg ''API_NETWORK'' = Some (JString ''mainnet'')"
    by (intro exI conjI)
  show ?thesis
    by (intro conjI a [THEN conjunct1] a [THEN conjunct2] b c f)
qed

text \<open>
  The selection loop with a positive cap, for evaluation at numerals; and its failure:
  when no prefix of the candidates within the cap covers the required funding and the
  fee for its length, the loop ends in \<open>InsufficientFunds\<close>.
\<close>

lemma select_inputs_pos:
  "0 < cap \<Longrightarrow> select_inputs fee required cap [] selected = Inl InsufficientFunds"
  "0 < cap \<Longrightarrow> select_inputs fee required cap (p # candidates) selected =
     (if total_in (selected @ [p]) \<ge> required + fee (length (selected @ [p]))
      then Inr (selected @ [p])
      else select_inputs fee required (cap - 1) candidates (selected @ [p]))"
  by (cases cap; simp add: Let_def)+

lemma select_inputs_fails:
  assumes "\<forall>k. 0 < k \<and> k \<le> min cap (length candidates) \<longrightarrow>
             total_in (selected @ take k candidates) < required + fee (length selected + k)"
  shows "select_inputs fee required cap candidates selected = Inl InsufficientFunds"
  using assms
proof (induction fee required cap candidates selected rule: select_inputs.induct)
  case (1 fee required candidates selected)
  then show ?case by simp
next
  case (2 fee required cap selected)
  then show ?case by simp
next
  case (3 fee required cap p candidates selected)
  from "3.prems" [rule_format, of 1]
  have short: "total_in (selected @ [p]) < required + fee (length selected + 1)"
    by simp
  have "\<forall>k. 0 < k \<and> k \<le> min cap (length candidates) \<longrightarrow>
          total_in ((selected @ [p]) @ take k candidates) < required + fee (length (selected @ [p]) + k)"
  proof (intro allI impI)
    fix k
    assume "0 < k \<and> k \<le> min cap (length candidates)"
    with "3.prems" [rule_format, of "Suc k"]
    show "total_in ((selected @ [p]) @ take k candidates) < required + fee (length (selected @ [p]) + k)"
      by simp
  qed
  with "3.IH" [OF refl] short show ?case
    by (simp add: Let_def)
qed

text \<open>
  C5. Let the instruction be one the codec encodes. If no non-empty prefix of the
  provider's outputs, up to the iteration cap, reaches the required funding plus the fee
  estimated for that many inputs (so the provider is exhausted, or gave no output at
  all, or the cap is reached first), the build fails with \<open>InsufficientFunds\<close>, and no
  call of \<^verbatim>\<open>sign\<close> has been made.
\<close>

theorem build_InsufficientFunds:
  assumes "embedded_outputs components (instruction request) = Inr embedded"
      and "n_out = length embedded + length (transfers request) + 1"
      and "required = required_funding policy providers request n_out"
      and "candidates = PrevoutProvider_collect providers required"
      and "\<forall>k. 0 < k \<and> k \<le> min (iteration_cap policy) (length candidates) \<longrightarrow>
             total_in (take k candidates) < required + estimated_fee policy providers n_out k"
  shows "build policy components providers request = (0, Inl InsufficientFunds)"
proof -
  from assms(5)
  have "select_inputs (estimated_fee policy providers n_out) required (iteration_cap policy)
          candidates [] = Inl InsufficientFunds"
    by (intro select_inputs_fails) simp
  with assms(1-4) show ?thesis
    by (simp add: build_def Let_def)
qed

text \<open>
  The theorem at a provider with no output, and at one whose only output is too small.
\<close>

theorem build_InsufficientFunds_witness:
  "PrevoutProvider_collect empty_providers 50000 = []
   \<and> build sample_policy sample_components empty_providers vote_request = (0, Inl InsufficientFunds)
   \<and> PrevoutProvider_collect poor_providers 50000 = [small_coin]
   \<and> total_in [small_coin] < 50000 + estimated_fee sample_policy poor_providers 2 1
   \<and> build sample_policy sample_components poor_providers vote_request = (0, Inl InsufficientFunds)"
proof -
  let ?embedded = "[\<lparr> out_value = 0, out_script = embed [68, 102, 84, 120, 79, 1] \<rparr>]"
  have e: "embedded_outputs sample_components (instruction vote_request) = Inr ?embedded"
    by (simp add: embedded_outputs_def sample_components_def vote_request_def)
  have n: "(2 :: nat) = length ?embedded + length (transfers vote_request) + 1"
    by (simp add: vote_request_def)
  have r: "(50000 :: nat) = required_funding sample_policy providers vote_request 2" for providers
    by (simp add: required_funding_def estimated_fee_def sample_policy_def vote_request_def total_out_def)
  have c0: "[] = PrevoutProvider_collect empty_providers 50000"
    by (simp add: empty_providers_def funded_providers_def)
  have h0: "\<forall>k. 0 < k \<and> k \<le> min (iteration_cap sample_policy) (length ([] :: SpendableOutput list)) \<longrightarrow>
             total_in (take k []) < 50000 + estimated_fee sample_policy empty_providers 2 k"
    by simp
  have c1: "[small_coin] = PrevoutProvider_collect poor_providers 50000"
    by (simp add: poor_providers_def funded_providers_def)
  have short: "total_in [small_coin] < 50000 + estimated_fee sample_policy poor_providers 2 1"
    by (simp add: total_in_def small_coin_def estimated_fee_def sample_policy_def)
  have h1: "\<forall>k. 0 < k \<and> k \<le> min (iteration_cap sample_policy) (length [small_coin]) \<longrightarrow>
             total_in (take k [small_coin]) < 50000 + estimated_fee sample_policy poor_providers 2 k"
  proof (intro allI impI)
    fix k :: nat
    assume "0 < k \<and> k \<le> min (iteration_cap sample_policy) (length [small_coin])"
    then have "k = 1"
      by simp
    with short show "total_in (take k [small_coin]) < 50000 + estimated_fee sample_policy poor_providers 2 k"
      by simp
  qed
  note b0 = build_InsufficientFunds [OF e n r c0 h0]
  note b1 = build_InsufficientFunds [OF e n r c1 h1]
  show ?thesis
    by (intro conjI c0 [symmetric] c1 [symmetric] short b0 b1)
qed

text \<open>
  C6. A transaction built for a request that carries an instruction has the embedded
  output at index 0: its value is zero and its script is \<^verbatim>\<open>OP_RETURN\<close> followed by the
  encoded instruction, in bytes \<open>0x6a\<close> and then the length-prefixed payload.
\<close>

theorem embedded_output_first:
  assumes "build policy components providers request = (n, Inr tx)"
      and "instruction request = Some i"
  shows "\<exists>instructionBytes.
           encode components i = Some instructionBytes
         \<and> outputs tx \<noteq> []
         \<and> out_value (outputs tx ! 0) = 0
         \<and> out_script (outputs tx ! 0) = embed instructionBytes
         \<and> stack (embed instructionBytes) = [OP_RETURN, OP_DEFI_TX instructionBytes]
         \<and> script_bytes (embed instructionBytes) = 106 # asBuffer (OP_DEFI_TX instructionBytes)"
proof (cases "encode components i")
  case None
  with assms show ?thesis
    by (simp add: build_def embedded_outputs_def)
next
  case (Some instructionBytes)
  with assms have "outputs tx \<noteq> [] \<and> outputs tx ! 0 = \<lparr> out_value = 0, out_script = embed instructionBytes \<rparr>"
    by (auto simp: build_def embedded_outputs_def Let_def assemble_outputs_def assemble_unsigned_def
             split: sum.splits prod.splits)
  with Some show ?thesis
    by (simp add: embed_def script_bytes_def)
qed

text \<open>The theorem at the funded set-up of section 8 and a six-byte instruction.\<close>

theorem embedded_output_first_witness:
  "build sample_policy sample_components funded_providers vote_request = (1, Inr signed_vote_tx)
   \<and> instruction vote_request = Some [68, 102, 84, 120, 79, 1]
   \<and> out_value (outputs signed_vote_tx ! 0) = 0
   \<and> script_bytes (out_script (outputs signed_vote_tx ! 0)) = [106, 6, 68, 102, 84, 120, 79, 1]"
proof -
  have b: "build sample_policy sample_components funded_providers vote_request = (1, Inr signed_vote_tx)"
    by (simp add: build_def sample_policy_def sample_components_def funded_providers_def
        vote_request_def embedded_outputs_def required_funding_def estimated_fee_def fee_rate_def
        total_in_def total_out_def ten_coins_def assemble_outputs_def assemble_unsigned_def
        select_inputs_pos signed_vote_tx_def lockingScriptFor_def script_bytes_def varint_def)

  have i: "instruction vote_request = Some [68, 102, 84, 120, 79, 1]"
    by (simp add: vote_request_def)
  from embedded_output_first [OF b i] obtain instructionBytes where
    "encode sample_components [68, 102, 84, 120, 79, 1] = Some instructionBytes"
    "out_value (outputs signed_vote_tx ! 0) = 0"
    "out_script (outputs signed_vote_tx ! 0) = embed instructionBytes"
    "script_bytes (embed instructionBytes) = 106 # asBuffer (OP_DEFI_TX instructionBytes)"
    by (elim exE conjE)
  then have "out_value (outputs signed_vote_tx ! 0) = 0
     \<and> script_bytes (out_script (outputs signed_vote_tx ! 0)) = [106, 6, 68, 102, 84, 120, 79, 1]"
    by (auto simp: sample_components_def varint_def)
  with b i show ?thesis
    by (intro conjI) simp_all
qed

end
